theory Spec2Isabelle
  imports Complex_Main
begin

section \<open>Client actions for administrating the client (client_actions/admin.py)\<close>

text \<open>
  The action classes of \<^verbatim>\<open>admin.py\<close> are embedded as functions on an explicit state.
  Everything an action does to the outside (sending a reply through the worker,
  sleeping, logging, persisting the configuration, taking memory, leaving the process)
  is appended to a trace, in program order. What an action reads from the outside (the host, the process,
  the statistics collector, the constants of other modules) is a field of the
  environment record.
\<close>

subsection \<open>Protocol buffers (grr.proto.jobs_pb2)\<close>

text \<open>
  Only the fields that \<^verbatim>\<open>admin.py\<close> reads or writes are modelled. An optional
  numeric field that was never set reads as zero, as protocol buffers do.
\<close>

datatype MessageType = MESSAGE | STATUS

datatype ReturnedStatus = OK

datatype config_value = IntValue int | StrValue string | BoolValue bool

record PrintStr =
  data :: string

record DataBlob =
  integer_field :: "int option"
  string_field :: "string option"

record Uname =
  system :: string
  node :: string
  release :: string
  version :: string
  machine :: string

record GrrStatus =
  status :: ReturnedStatus

text \<open>A \<^verbatim>\<open>GRRConfig\<close> message is the list of its set fields, as \<^verbatim>\<open>ListFields()\<close> returns them.\<close>

type_synonym GRRConfig = "(string \<times> config_value) list"

record ClientInformation =
  client_name :: string
  client_version :: int
  build_time :: string

record CpuSample =
  cpu_timestamp :: int
  user_cpu_time :: real
  system_cpu_time :: real
  cpu_percent :: real

record IOSample =
  io_timestamp :: int
  read_bytes :: int
  write_bytes :: int

record ClientStats =
  RSS_size :: int
  VMS_size :: int
  memory_percent :: real
  bytes_received :: int
  bytes_sent :: int
  create_time :: int
  boot_time :: int
  cpu_samples :: "CpuSample list"
  io_samples :: "IOSample list"

record StartupInfo =
  client_info :: ClientInformation
  startup_boot_time :: int

datatype protobuf =
    PrintStr_pb PrintStr
  | DataBlob_pb DataBlob
  | Uname_pb Uname
  | GrrStatus_pb GrrStatus
  | GRRConfig_pb GRRConfig
  | ClientInformation_pb ClientInformation
  | ClientStats_pb ClientStats
  | StartupInfo_pb StartupInfo

definition integer :: "DataBlob \<Rightarrow> int" where
  \<comment> \<open>\<^verbatim>\<open>arg.integer\<close>: the value, or 0 when the field is unset\<close>
  "integer arg = (case integer_field arg of None \<Rightarrow> 0 | Some n \<Rightarrow> n)"

subsection \<open>Replies, effects and state\<close>

text \<open>
  A reply is the call \<^verbatim>\<open>grr_worker.SendReply(protobuf, session_id=..., response_id=...,
  request_id=..., priority=..., message_type=..., require_fastpoll=..., ttl=...)\<close>: the
  record holds the arguments of the call, \<open>ttl\<close> being \<open>None\<close> when not given.
\<close>

record GrrMessage =
  payload :: protobuf
  session_id :: string
  response_id :: int
  request_id :: int
  priority :: int
  message_type :: MessageType
  require_fastpoll :: bool
  ttl :: "int option"

datatype exn = IOError | OSError | OtherException string

datatype event =
    WorkerSendReply GrrMessage        \<comment> \<open>\<^verbatim>\<open>grr_worker.SendReply(...)\<close>\<close>
  | WorkerSleep int                   \<comment> \<open>\<^verbatim>\<open>grr_worker.Sleep(n)\<close>\<close>
  | TimeSleep int                     \<comment> \<open>\<^verbatim>\<open>time.sleep(n)\<close>\<close>
  | LoggingInfo string                \<comment> \<open>\<^verbatim>\<open>logging.info(msg)\<close>\<close>
  | LoggingWarning string             \<comment> \<open>\<^verbatim>\<open>logging.warning(msg)\<close>\<close>
  | ParserUpdateConfig "string list"  \<comment> \<open>\<^verbatim>\<open>conf.PARSER.UpdateConfig(keys)\<close>\<close>
  | ListAppend string                 \<comment> \<open>\<^verbatim>\<open>l.append(block)\<close>: the block is built and kept\<close>
  | OsExit int                        \<comment> \<open>\<^verbatim>\<open>os._exit(code)\<close>\<close>

text \<open>
  The state an action works on: the request that triggered it (\<^verbatim>\<open>self.message\<close>), the
  number of its next response, the flags of the running configuration
  (\<^verbatim>\<open>conf.FLAGS\<close>, an attribute store), the readings that \<^verbatim>\<open>time.time()\<close> will still
  return, and the trace of effects so far.
\<close>

record state =
  message_session_id :: string
  message_request_id :: int
  self_response_id :: int
  FLAGS :: "string \<rightharpoonup> config_value"
  clock :: "real list"
  trace :: "event list"

text \<open>
  What the actions read and do not change. The priorities and the field names of
  \<^verbatim>\<open>GRRConfig\<close> are declared in \<^verbatim>\<open>jobs.proto\<close>, the client identity in
  \<^verbatim>\<open>client_config\<close>; neither is part of \<^verbatim>\<open>admin.py\<close>, so they are parameters.
  \<open>PARSER_UpdateConfig keys\<close> is the exception that \<^verbatim>\<open>conf.PARSER.UpdateConfig(keys)\<close>
  raises, or \<open>None\<close> when the write succeeds.
\<close>

record env =
  LOW_PRIORITY :: int
  MEDIUM_PRIORITY :: int
  HIGH_PRIORITY :: int
  GRRConfig_fields :: "string list"
  GRR_CLIENT_NAME :: string
  GRR_CLIENT_VERSION :: int
  GRR_CLIENT_BUILDTIME :: string
  gethostname :: string
  uname :: Uname
  get_memory_info :: "int \<times> int"
  get_memory_percent :: real
  proc_create_time :: real
  BOOT_TIME :: real
  STATS_Get :: "string \<Rightarrow> int"
  stats_collector_cpu_samples :: "(real \<times> real \<times> real \<times> real) list"
  stats_collector_io_samples :: "(real \<times> int \<times> int) list"
  PARSER_UpdateConfig :: "string list \<Rightarrow> exn option"

definition emit :: "event \<Rightarrow> state \<Rightarrow> state" where
  "emit e s = s\<lparr>trace := trace s @ [e]\<rparr>"

fun replies :: "event list \<Rightarrow> GrrMessage list" where
  "replies [] = []"
| "replies (WorkerSendReply m # es) = m # replies es"
| "replies (_ # es) = replies es"

definition grr_worker_SendReply ::
  "protobuf \<Rightarrow> string \<Rightarrow> int \<Rightarrow> int \<Rightarrow> int \<Rightarrow> MessageType \<Rightarrow> bool \<Rightarrow> int option
    \<Rightarrow> state \<Rightarrow> state" where
  "grr_worker_SendReply pb sid resp req prio mt fastpoll t s =
     emit (WorkerSendReply \<lparr>payload = pb, session_id = sid, response_id = resp,
       request_id = req, priority = prio, message_type = mt,
       require_fastpoll = fastpoll, ttl = t\<rparr>) s"

text \<open>
  Modelled from the spec: \<^verbatim>\<open>ActionPlugin.SendReply\<close> of \<^verbatim>\<open>grr/client/actions.py\<close>, the
  base class of every action, is not part of \<^verbatim>\<open>admin.py\<close>. By the specification's
  normal addressing the reply inherits session and request of the triggering request
  and takes the next response number of the action; it is a \<open>MESSAGE\<close> of normal
  priority that requires expedited transport unless the caller says otherwise.
\<close>

definition SendReply :: "env \<Rightarrow> protobuf \<Rightarrow> MessageType option \<Rightarrow> int option \<Rightarrow> state \<Rightarrow> state" where
  "SendReply E pb mt prio s =
     (let s' = grr_worker_SendReply pb (message_session_id s) (self_response_id s)
                 (message_request_id s)
                 (case prio of None \<Rightarrow> MEDIUM_PRIORITY E | Some p \<Rightarrow> p)
                 (case mt of None \<Rightarrow> MESSAGE | Some t \<Rightarrow> t)
                 True None s
      in s'\<lparr>self_response_id := self_response_id s' + 1\<rparr>)"

definition py_or :: "int \<Rightarrow> int \<Rightarrow> int" where
  \<comment> \<open>Python's \<^verbatim>\<open>x or y\<close> on integers: \<open>y\<close> when \<open>x\<close> is zero\<close>
  "py_or x y = (if x = 0 then y else x)"

definition long :: "real \<Rightarrow> int" where
  \<comment> \<open>\<^verbatim>\<open>long(x)\<close> truncates towards zero; floating-point rounding is not modelled\<close>
  "long x = (if 0 \<le> x then \<lfloor>x\<rfloor> else \<lceil>x\<rceil>)"

subsection \<open>Echo, GetHostname, GetPlatformInfo\<close>

definition Echo_Run :: "env \<Rightarrow> PrintStr \<Rightarrow> state \<Rightarrow> state" where
  "Echo_Run E args s = SendReply E (PrintStr_pb args) None None s"

definition GetHostname_Run :: "env \<Rightarrow> state \<Rightarrow> state" where
  "GetHostname_Run E s =
     SendReply E (DataBlob_pb \<lparr>integer_field = None, string_field = Some (gethostname E)\<rparr>)
       None None s"

definition GetPlatformInfo_Run :: "env \<Rightarrow> state \<Rightarrow> state" where
  "GetPlatformInfo_Run E s =
     (let u = uname E
      in SendReply E (Uname_pb \<lparr>system = system u, node = node u, release = release u,
            version = version u, machine = machine u\<rparr>) None None s)"

subsection \<open>Kill\<close>

definition Kill_Run :: "env \<Rightarrow> state \<Rightarrow> state" where
  "Kill_Run E s =
     (let reply = \<lparr>status = OK\<rparr>;
          s1 = SendReply E (GrrStatus_pb reply) (Some STATUS) (Some (HIGH_PRIORITY E + 1)) s;
          s2 = emit (WorkerSleep 10) s1;
          s3 = emit (LoggingInfo ''Dying on request.'') s2
      in emit (OsExit 242) s3)"

subsection \<open>Hang, BusyHang, Bloat\<close>

definition Hang_Run :: "DataBlob \<Rightarrow> state \<Rightarrow> state" where
  "Hang_Run arg s = emit (TimeSleep (py_or (integer arg) 6000)) s"

text \<open>
  \<^verbatim>\<open>while time.time() < end: pass\<close>: every test reads the clock once. The loop ends at
  the first reading that is not below \<^verbatim>\<open>end\<close>; when the readings run out before, it has
  not ended and the result is \<open>None\<close>.
\<close>

fun BusyHang_loop :: "real \<Rightarrow> real list \<Rightarrow> real list option" where
  "BusyHang_loop end_time [] = None"
| "BusyHang_loop end_time (t # ts) =
     (if t < end_time then BusyHang_loop end_time ts else Some ts)"

definition BusyHang_Run :: "DataBlob \<Rightarrow> state \<Rightarrow> state option" where
  "BusyHang_Run arg s =
     (case clock s of
        [] \<Rightarrow> None
      | t0 # ts \<Rightarrow>
          (let end_time = t0 + real_of_int (py_or (integer arg) 5)
           in case BusyHang_loop end_time ts of
                None \<Rightarrow> None
              | Some ts' \<Rightarrow> Some (s\<lparr>clock := ts'\<rparr>)))"

text \<open>
  \<^verbatim>\<open>for _ in range(iterations): l.append("X" * 1048576)\<close>: every pass builds a string
  of 1048576 characters and appends it to \<open>l\<close>, which keeps it until \<^verbatim>\<open>Run\<close> returns;
  each append is an effect in the trace, so the trace holds as many blocks as \<open>l\<close> does
  when the sleep begins. \<open>range\<close> of a negative number is empty.
\<close>

fun Bloat_loop :: "nat \<Rightarrow> state \<Rightarrow> state" where
  "Bloat_loop 0 s = s"
| "Bloat_loop (Suc k) s = Bloat_loop k (emit (ListAppend (replicate 1048576 CHR ''X'')) s)"

definition Bloat_Run :: "DataBlob \<Rightarrow> state \<Rightarrow> state" where
  "Bloat_Run arg s =
     (let iterations = py_or (integer arg) 1024;
          s1 = Bloat_loop (nat iterations) s
      in emit (TimeSleep 60) s1)"

subsection \<open>GetConfig, UpdateConfig\<close>

definition GetConfig_out :: "env \<Rightarrow> (string \<rightharpoonup> config_value) \<Rightarrow> GRRConfig" where
  \<comment> \<open>the fields of \<^verbatim>\<open>GRRConfig\<close> that the flags have, with the flags' values\<close>
  "GetConfig_out E flags =
     List.map_filter (\<lambda>field. case flags field of None \<Rightarrow> None | Some v \<Rightarrow> Some (field, v))
       (GRRConfig_fields E)"

definition GetConfig_Run :: "env \<Rightarrow> state \<Rightarrow> state" where
  "GetConfig_Run E s = SendReply E (GRRConfig_pb (GetConfig_out E (FLAGS s))) None None s"

definition UPDATEABLE_FIELDS :: "string list" where
  "UPDATEABLE_FIELDS =
     [''compression'', ''foreman_check_frequency'', ''location'', ''max_post_size'',
      ''max_out_queue'', ''poll_min'', ''poll_max'', ''poll_slew'', ''rss_max'', ''verbose'']"

text \<open>
  The loop over \<^verbatim>\<open>arg.ListFields()\<close>, on the flags, \<^verbatim>\<open>updated_keys\<close> and
  \<^verbatim>\<open>disallowed_fields\<close>.
\<close>

fun UpdateConfig_loop ::
  "GRRConfig \<Rightarrow> (string \<rightharpoonup> config_value) \<times> string list \<times> string list
    \<Rightarrow> (string \<rightharpoonup> config_value) \<times> string list \<times> string list" where
  "UpdateConfig_loop [] acc = acc"
| "UpdateConfig_loop ((name, v) # rest) (flags, updated_keys, disallowed_fields) =
     (if name \<in> set UPDATEABLE_FIELDS
      then UpdateConfig_loop rest (flags(name \<mapsto> v), updated_keys @ [name], disallowed_fields)
      else UpdateConfig_loop rest (flags, updated_keys, disallowed_fields @ [name]))"

fun join :: "string \<Rightarrow> string list \<Rightarrow> string" where
  "join sep [] = []"
| "join sep [x] = x"
| "join sep (x # y # ys) = x @ sep @ join sep (y # ys)"

text \<open>
  The result pairs the exception that leaves \<^verbatim>\<open>Run\<close> (\<open>None\<close> when it returns) with the
  state reached: the flags are set before the parser is called.
\<close>

definition UpdateConfig_Run :: "env \<Rightarrow> GRRConfig \<Rightarrow> state \<Rightarrow> exn option \<times> state" where
  "UpdateConfig_Run E arg s =
     (case UpdateConfig_loop arg (FLAGS s, [], []) of
        (flags, updated_keys, disallowed_fields) \<Rightarrow>
          (let s1 = s\<lparr>FLAGS := flags\<rparr>;
               s2 = (if disallowed_fields \<noteq> []
                     then emit (LoggingWarning
                            (''Received an update request for restricted field(s) ''
                              @ join '','' disallowed_fields @ ''.'')) s1
                     else s1);
               s3 = emit (ParserUpdateConfig updated_keys) s2
           in case PARSER_UpdateConfig E updated_keys of
                None \<Rightarrow> (None, s3)
              | Some e \<Rightarrow> (if e = IOError \<or> e = OSError then (None, s3) else (Some e, s3))))"

subsection \<open>GetClientInfo, GetClientStats, GetClientStatsAuto, SendStartupInfo\<close>

definition GetClientInfo_Run :: "env \<Rightarrow> state \<Rightarrow> state" where
  "GetClientInfo_Run E s =
     SendReply E (ClientInformation_pb \<lparr>client_name = GRR_CLIENT_NAME E,
        client_version = GRR_CLIENT_VERSION E, build_time = GRR_CLIENT_BUILDTIME E\<rparr>)
       None None s"

definition GetClientStats_response :: "env \<Rightarrow> ClientStats" where
  \<comment> \<open>the \<^verbatim>\<open>response\<close> that \<^verbatim>\<open>GetClientStats.Run\<close> has built when it calls \<^verbatim>\<open>self.Send\<close>\<close>
  "GetClientStats_response E =
     \<lparr>RSS_size = fst (get_memory_info E),
      VMS_size = snd (get_memory_info E),
      memory_percent = get_memory_percent E,
      bytes_received = STATS_Get E ''grr_client_received_bytes'',
      bytes_sent = STATS_Get E ''grr_client_sent_bytes'',
      create_time = long (proc_create_time E * 1000000),
      boot_time = long (BOOT_TIME E * 1000000),
      cpu_samples = map (\<lambda>(timestamp, user, sys, percent).
          \<lparr>cpu_timestamp = long (timestamp * 1000000), user_cpu_time = user,
           system_cpu_time = sys, cpu_percent = percent\<rparr>) (stats_collector_cpu_samples E),
      io_samples = map (\<lambda>(timestamp, rd, wr).
          \<lparr>io_timestamp = long (timestamp * 1000000), read_bytes = rd,
           write_bytes = wr\<rparr>) (stats_collector_io_samples E)\<rparr>"

definition GetClientStats_Send :: "env \<Rightarrow> ClientStats \<Rightarrow> state \<Rightarrow> state" where
  "GetClientStats_Send E response s = SendReply E (ClientStats_pb response) None None s"

definition GetClientStatsAuto_Send :: "env \<Rightarrow> ClientStats \<Rightarrow> state \<Rightarrow> state" where
  "GetClientStatsAuto_Send E response s =
     grr_worker_SendReply (ClientStats_pb response) ''W:Stats'' 0 0 (LOW_PRIORITY E)
       MESSAGE False None s"

text \<open>
  \<^verbatim>\<open>GetClientStatsAuto\<close> inherits \<^verbatim>\<open>Run\<close> and overrides \<^verbatim>\<open>Send\<close>: the inherited
  \<^verbatim>\<open>Run\<close> takes the \<^verbatim>\<open>Send\<close> of the class it runs in.
\<close>

definition GetClientStats_Run_with ::
  "(env \<Rightarrow> ClientStats \<Rightarrow> state \<Rightarrow> state) \<Rightarrow> env \<Rightarrow> state \<Rightarrow> state" where
  "GetClientStats_Run_with Send E s = Send E (GetClientStats_response E) s"

definition GetClientStats_Run :: "env \<Rightarrow> state \<Rightarrow> state" where
  "GetClientStats_Run = GetClientStats_Run_with GetClientStats_Send"

definition GetClientStatsAuto_Run :: "env \<Rightarrow> state \<Rightarrow> state" where
  "GetClientStatsAuto_Run = GetClientStats_Run_with GetClientStatsAuto_Send"

definition well_known_session_id :: string where
  "well_known_session_id = ''W:Startup''"

definition SendStartupInfo_Run :: "env \<Rightarrow> int option \<Rightarrow> state \<Rightarrow> state" where
  "SendStartupInfo_Run E t s =
     (let client_info = \<lparr>client_name = GRR_CLIENT_NAME E,
            client_version = GRR_CLIENT_VERSION E, build_time = GRR_CLIENT_BUILDTIME E\<rparr>;
          response = \<lparr>client_info = client_info, startup_boot_time = long (BOOT_TIME E * 1000000)\<rparr>
      in grr_worker_SendReply (StartupInfo_pb response) well_known_session_id 0 0
           (LOW_PRIORITY E) MESSAGE False t s)"

subsection \<open>All actions\<close>

text \<open>
  One constructor for each action class of the module, with the input the class
  declares. \<open>run\<close> is the call of its \<^verbatim>\<open>Run\<close>: the exception that leaves it, if any, and
  the state reached, or \<open>None\<close> when \<^verbatim>\<open>Run\<close> has not returned.
\<close>

datatype action =
    Echo PrintStr | GetHostname | GetPlatformInfo | Kill
  | Hang DataBlob | BusyHang DataBlob | Bloat DataBlob
  | GetConfig | UpdateConfig GRRConfig
  | GetClientInfo | GetClientStats | GetClientStatsAuto | SendStartupInfo "int option"

fun run :: "env \<Rightarrow> action \<Rightarrow> state \<Rightarrow> (exn option \<times> state) option" where
  "run E (Echo args) s = Some (None, Echo_Run E args s)"
| "run E GetHostname s = Some (None, GetHostname_Run E s)"
| "run E GetPlatformInfo s = Some (None, GetPlatformInfo_Run E s)"
| "run E Kill s = Some (None, Kill_Run E s)"
| "run E (Hang arg) s = Some (None, Hang_Run arg s)"
| "run E (BusyHang arg) s = map_option (Pair None) (BusyHang_Run arg s)"
| "run E (Bloat arg) s = Some (None, Bloat_Run arg s)"
| "run E GetConfig s = Some (None, GetConfig_Run E s)"
| "run E (UpdateConfig arg) s = Some (UpdateConfig_Run E arg s)"
| "run E GetClientInfo s = Some (None, GetClientInfo_Run E s)"
| "run E GetClientStats s = Some (None, GetClientStats_Run E s)"
| "run E GetClientStatsAuto s = Some (None, GetClientStatsAuto_Run E s)"
| "run E (SendStartupInfo t) s = Some (None, SendStartupInfo_Run E t s)"

subsection \<open>Example inputs\<close>

text \<open>
  A concrete environment, state and configuration update, on which the theorems below
  are instantiated: the priorities are numbered in increasing order, the parser fails
  with an I/O error on every write (in the second environment with an exception of
  another kind), and the update carries one updateable field and one that is not.
\<close>

definition example_env :: env where
  "example_env =
     \<lparr>LOW_PRIORITY = 0, MEDIUM_PRIORITY = 1, HIGH_PRIORITY = 2,
      GRRConfig_fields = [''location'', ''poll_min'', ''poll_max'', ''arbitrary_field''],
      GRR_CLIENT_NAME = ''GRR'', GRR_CLIENT_VERSION = 1, GRR_CLIENT_BUILDTIME = ''unknown'',
      gethostname = ''host'',
      uname = \<lparr>system = ''Linux'', node = ''host'', release = ''3.2'', version = ''1'',
               machine = ''x86_64''\<rparr>,
      get_memory_info = (1000, 2000), get_memory_percent = 1,
      proc_create_time = 5, BOOT_TIME = 2,
      STATS_Get = (\<lambda>_. 0),
      stats_collector_cpu_samples = [(1, 2, 3, 4)],
      stats_collector_io_samples = [(1, 10, 20)],
      PARSER_UpdateConfig = (\<lambda>_. Some IOError)\<rparr>"

definition example_state :: state where
  "example_state =
     \<lparr>message_session_id = ''F:1234'', message_request_id = 7, self_response_id = 1,
      FLAGS = [''poll_min'' \<mapsto> IntValue 60], clock = [0, 1, 3, 4], trace = []\<rparr>"


definition example_arg :: GRRConfig where
  "example_arg = [(''poll_min'', IntValue 5), (''arbitrary_field'', StrValue ''x'')]"

section \<open>Properties\<close>

subsection \<open>Effects of the sending primitives\<close>

lemma trace_emit: "trace (emit e s) = trace s @ [e]"
  by (simp add: emit_def)

lemma FLAGS_emit: "FLAGS (emit e s) = FLAGS s"
  by (simp add: emit_def)

lemma replies_append: "replies (es @ fs) = replies es @ replies fs"
  by (induction es rule: replies.induct) simp_all

lemma trace_grr_worker_SendReply:
  "trace (grr_worker_SendReply pb sid resp req prio mt fp t s) =
     trace s @ [WorkerSendReply \<lparr>payload = pb, session_id = sid, response_id = resp,
       request_id = req, priority = prio, message_type = mt,
       require_fastpoll = fp, ttl = t\<rparr>]"
  by (simp add: grr_worker_SendReply_def emit_def)


lemma trace_SendReply:
  "trace (SendReply E pb mt prio s) =
     trace s @ [WorkerSendReply \<lparr>payload = pb, session_id = message_session_id s,
       response_id = self_response_id s, request_id = message_request_id s,
       priority = (case prio of None \<Rightarrow> MEDIUM_PRIORITY E | Some p \<Rightarrow> p),
       message_type = (case mt of None \<Rightarrow> MESSAGE | Some t \<Rightarrow> t),
       require_fastpoll = True, ttl = None\<rparr>]"
  by (simp add: SendReply_def Let_def trace_grr_worker_SendReply)


subsection \<open>Echo\<close>

text \<open>
  C9. For every input message, \<^verbatim>\<open>Echo\<close> adds exactly one effect to the trace, a reply,
  and the payload of that reply is the input.
\<close>

theorem Echo_replies_input:
  "\<exists>m. trace (Echo_Run E args s) = trace s @ [WorkerSendReply m] \<and> payload m = PrintStr_pb args"
  by (simp add: Echo_Run_def trace_SendReply)

subsection \<open>Kill\<close>

text \<open>
  C4. \<^verbatim>\<open>Kill\<close> sends exactly one reply, a \<open>STATUS\<close> of priority \<open>HIGH_PRIORITY + 1\<close>, then
  lets the worker sleep for the fixed interval of 10, and then leaves the process with
  the fixed exit code 242, which is not zero; this happens whatever the environment and
  the state are.
\<close>

theorem Kill_reply_sleep_exit:
  "\<exists>m code. trace (Kill_Run E s) =
       trace s @ [WorkerSendReply m, WorkerSleep 10, LoggingInfo ''Dying on request.'', OsExit code]
     \<and> message_type m = STATUS \<and> priority m = HIGH_PRIORITY E + 1
     \<and> code = 242 \<and> code \<noteq> 0"
  by (simp add: Kill_Run_def Let_def trace_emit trace_SendReply)

subsection \<open>Well-known sessions\<close>

text \<open>
  C5. The startup report of \<^verbatim>\<open>SendStartupInfo\<close> and the statistics report of
  \<^verbatim>\<open>GetClientStatsAuto\<close> carry request number 0, response number 0 and the session
  \<^verbatim>\<open>W:Startup\<close> and \<^verbatim>\<open>W:Stats\<close> respectively. The message is the same in every state, so
  it does not depend on the session, the request or the response counter of the
  triggering request.
\<close>

theorem well_known_addressing:
  "(\<exists>m. (\<forall>s. trace (SendStartupInfo_Run E t s) = trace s @ [WorkerSendReply m])
      \<and> request_id m = 0 \<and> response_id m = 0 \<and> session_id m = ''W:Startup'')
   \<and> (\<exists>m. (\<forall>s. trace (GetClientStatsAuto_Run E s) = trace s @ [WorkerSendReply m])
      \<and> request_id m = 0 \<and> response_id m = 0 \<and> session_id m = ''W:Stats'')"
  by (simp add: SendStartupInfo_Run_def GetClientStatsAuto_Run_def GetClientStats_Run_with_def
      GetClientStatsAuto_Send_def well_known_session_id_def Let_def trace_grr_worker_SendReply)

text \<open>
  C6. For every \<open>ttl\<close> given to \<^verbatim>\<open>SendStartupInfo\<close>, the one message it sends is addressed
  to the session \<^verbatim>\<open>W:Startup\<close>, whatever the session of the requester in the state is, and
  carries that \<open>ttl\<close> unchanged.
\<close>

theorem SendStartupInfo_forwards_ttl:
  "\<exists>m. (\<forall>s. trace (SendStartupInfo_Run E t s) = trace s @ [WorkerSendReply m])
      \<and> session_id m = ''W:Startup'' \<and> ttl m = t"
  by (simp add: SendStartupInfo_Run_def well_known_session_id_def Let_def
      trace_grr_worker_SendReply)

subsection \<open>Hang, BusyHang, Bloat\<close>

lemma trace_Bloat_loop:
  "trace (Bloat_loop k s) = trace s @ replicate k (ListAppend (replicate 1048576 CHR ''X''))"
proof (induction k arbitrary: s)
  case 0
  show ?case by simp
next
  case (Suc k)
  show ?case by (simp add: Suc.IH trace_emit replicate_app_Cons_same)
qed


lemma replies_ListAppend: "replies (replicate k (ListAppend b)) = []"
  by (induction k) simp_all

lemma trace_Bloat_Run:
  "trace (Bloat_Run arg s) =
     trace s @ replicate (nat (py_or (integer arg) 1024))
                 (ListAppend (replicate 1048576 CHR ''X'')) @ [TimeSleep 60]"
  by (simp add: Bloat_Run_def Let_def trace_emit trace_Bloat_loop)

lemma BusyHang_loop_Some:
  "BusyHang_loop d ts = Some ts' \<Longrightarrow>
     \<exists>pre t. ts = pre @ t # ts' \<and> (\<forall>x\<in>set pre. x < d) \<and> d \<le> t"
proof (induction ts)
  case Nil
  then show ?case by simp
next
  case (Cons a ts)
  show ?case
  proof (cases "a < d")
    case True
    with Cons.prems have "BusyHang_loop d ts = Some ts'" by simp
    from Cons.IH [OF this] obtain pre t where
      "ts = pre @ t # ts'" "\<forall>x\<in>set pre. x < d" "d \<le> t" by blast
    with True have "a # ts = (a # pre) @ t # ts' \<and> (\<forall>x\<in>set (a # pre). x < d) \<and> d \<le> t"
      by simp
    then show ?thesis by blast
  next
    case False
    with Cons.prems have "ts = ts'" by simp
    with False have "a # ts = [] @ a # ts' \<and> (\<forall>x\<in>set []. x < d) \<and> d \<le> a" by simp
    then show ?thesis by blast
  qed
qed

lemma BusyHang_loop_returns:
  "\<exists>t\<in>set ts. d \<le> t \<Longrightarrow> BusyHang_loop d ts \<noteq> None"
  by (induction ts) auto

text \<open>
  C10. When the integer argument is unset or zero, \<^verbatim>\<open>Hang\<close> sleeps for 6000,
  \<^verbatim>\<open>BusyHang\<close> spins until the clock has advanced by 5 and \<^verbatim>\<open>Bloat\<close> appends 1024
  blocks of 1048576 characters and then sleeps for 60; when it is a positive \<open>n\<close>, they
  use \<open>n\<close> instead (\<open>used\<close> maps each default to the value used). \<^verbatim>\<open>BusyHang\<close> returns
  at the first reading of the clock that is not below the start plus that duration, and
  it does return when there is such a reading. None of the three sends a reply:
  \<^verbatim>\<open>Hang\<close> adds one sleep to the trace, \<^verbatim>\<open>Bloat\<close> its blocks and one sleep, and
  \<^verbatim>\<open>BusyHang\<close> nothing.
\<close>

theorem fault_injection_defaults:
  assumes "(integer_field arg = None \<or> integer_field arg = Some 0) \<and> used = (\<lambda>dflt. dflt)
         \<or> (\<exists>n. 0 < n \<and> integer_field arg = Some n \<and> used = (\<lambda>dflt. n))"
  shows "trace (Hang_Run arg s) = trace s @ [TimeSleep (used 6000)]
       \<and> replies (trace (Hang_Run arg s)) = replies (trace s)
       \<and> trace (Bloat_Run arg s) =
           trace s @ replicate (nat (used 1024)) (ListAppend (replicate 1048576 CHR ''X''))
             @ [TimeSleep 60]
       \<and> replies (trace (Bloat_Run arg s)) = replies (trace s)
       \<and> (\<forall>s'. BusyHang_Run arg s = Some s' \<longrightarrow>
            trace s' = trace s
            \<and> (\<exists>t0 pre t. clock s = t0 # pre @ t # clock s'
                 \<and> (\<forall>x\<in>set pre. x < t0 + real_of_int (used 5))
                 \<and> t0 + real_of_int (used 5) \<le> t))
       \<and> (\<forall>t0 ts. clock s = t0 # ts \<and> (\<exists>t\<in>set ts. t0 + real_of_int (used 5) \<le> t)
            \<longrightarrow> BusyHang_Run arg s \<noteq> None)"
proof -
  have used: "\<And>d. py_or (integer arg) d = used d"
    using assms by (auto simp: integer_def py_or_def)
  have hang: "trace (Hang_Run arg s) = trace s @ [TimeSleep (used 6000)]"
    by (simp add: Hang_Run_def used trace_emit)
  have bloat: "trace (Bloat_Run arg s) =
      trace s @ replicate (nat (used 1024)) (ListAppend (replicate 1048576 CHR ''X''))
        @ [TimeSleep 60]"
    by (simp only: trace_Bloat_Run used)
  have busy: "trace s' = trace s
      \<and> (\<exists>t0 pre t. clock s = t0 # pre @ t # clock s'
           \<and> (\<forall>x\<in>set pre. x < t0 + real_of_int (used 5))
           \<and> t0 + real_of_int (used 5) \<le> t)"
    if run: "BusyHang_Run arg s = Some s'" for s'
  proof -
    from run obtain t0 ts ts' where c: "clock s = t0 # ts"
      and l: "BusyHang_loop (t0 + real_of_int (used 5)) ts = Some ts'"
      and s': "s' = s\<lparr>clock := ts'\<rparr>"
      by (auto simp: BusyHang_Run_def used Let_def split: list.splits option.splits)
    from BusyHang_loop_Some [OF l] obtain pre t where
      "ts = pre @ t # ts'" "\<forall>x\<in>set pre. x < t0 + real_of_int (used 5)"
      "t0 + real_of_int (used 5) \<le> t" by blast
    with c s' show ?thesis by simp
  qed
  have returns: "BusyHang_Run arg s \<noteq> None"
    if c: "clock s = t0 # ts" and ex: "\<exists>t\<in>set ts. t0 + real_of_int (used 5) \<le> t" for t0 ts
    using BusyHang_loop_returns [OF ex] c
    by (auto simp: BusyHang_Run_def used Let_def split: option.splits)
  from hang have hang_silent: "replies (trace (Hang_Run arg s)) = replies (trace s)"
    by (simp add: replies_append)
  from bloat have bloat_silent: "replies (trace (Bloat_Run arg s)) = replies (trace s)"
    by (simp add: replies_append replies_ListAppend)
  from hang hang_silent bloat bloat_silent busy returns show ?thesis by blast
qed

theorem fault_injection_defaults_witness:
  "((integer_field \<lparr>integer_field = Some 2, string_field = None\<rparr> = None
      \<or> integer_field \<lparr>integer_field = Some 2, string_field = None\<rparr> = Some 0)
      \<and> (\<lambda>dflt. 2) = (\<lambda>dflt::int. dflt)
    \<or> (\<exists>n. 0 < n \<and> integer_field \<lparr>integer_field = Some 2, string_field = None\<rparr> = Some n
          \<and> (\<lambda>dflt::int. 2) = (\<lambda>dflt. n)))
   \<and> trace (Hang_Run \<lparr>integer_field = Some 2, string_field = None\<rparr> example_state)
        = [TimeSleep 2]
   \<and> length (trace (Bloat_Run \<lparr>integer_field = Some 2, string_field = None\<rparr> example_state))
        = 3
   \<and> BusyHang_Run \<lparr>integer_field = Some 2, string_field = None\<rparr> example_state \<noteq> None"
proof -
  let ?arg = "\<lparr>integer_field = Some 2, string_field = None\<rparr>"
  have h: "(integer_field ?arg = None \<or> integer_field ?arg = Some 0)
      \<and> (\<lambda>dflt. 2) = (\<lambda>dflt::int. dflt)
    \<or> (\<exists>n. 0 < n \<and> integer_field ?arg = Some n \<and> (\<lambda>dflt::int. 2) = (\<lambda>dflt. n))"
    by simp
  have c: "clock example_state = 0 # [1, 3, 4]" by (simp add: example_state_def)
  have t: "trace example_state = []" by (simp add: example_state_def)
  from fault_injection_defaults [OF h, of example_state] c t h show ?thesis
    by simp
qed

subsection \<open>UpdateConfig and GetConfig\<close>

lemma UpdateConfig_loop_eq:
  "UpdateConfig_loop arg (flags, up, dis) =
    ((\<lambda>name. if name \<in> set UPDATEABLE_FIELDS
         then (case map_of (rev arg) name of Some v \<Rightarrow> Some v | None \<Rightarrow> flags name)
         else flags name),
     up @ filter (\<lambda>n. n \<in> set UPDATEABLE_FIELDS) (map fst arg),
     dis @ filter (\<lambda>n. n \<notin> set UPDATEABLE_FIELDS) (map fst arg))"
proof (induction arg arbitrary: flags up dis)
  case Nil
  show ?case by (simp add: fun_eq_iff)
next
  case (Cons a arg)
  obtain name v where a: "a = (name, v)" by (cases a)
  show ?case
    unfolding a
    by (auto simp: Cons.IH map_add_def fun_eq_iff split: option.splits)
qed

lemma FLAGS_UpdateConfig_Run:
  "FLAGS (snd (UpdateConfig_Run E arg s)) =
     (\<lambda>name. if name \<in> set UPDATEABLE_FIELDS
         then (case map_of (rev arg) name of Some v \<Rightarrow> Some v | None \<Rightarrow> FLAGS s name)
         else FLAGS s name)"
  by (simp add: UpdateConfig_Run_def UpdateConfig_loop_eq Let_def FLAGS_emit
      split: option.splits)

lemma trace_UpdateConfig_Run:
  "trace (snd (UpdateConfig_Run E arg s)) =
     trace s
     @ (if filter (\<lambda>n. n \<notin> set UPDATEABLE_FIELDS) (map fst arg) \<noteq> []
        then [LoggingWarning (''Received an update request for restricted field(s) ''
                @ join '','' (filter (\<lambda>n. n \<notin> set UPDATEABLE_FIELDS) (map fst arg)) @ ''.'')]
        else [])
     @ [ParserUpdateConfig (filter (\<lambda>n. n \<in> set UPDATEABLE_FIELDS) (map fst arg))]"
  by (simp add: UpdateConfig_Run_def UpdateConfig_loop_eq Let_def trace_emit
      split: option.splits)

lemma raised_UpdateConfig_Run:
  "fst (UpdateConfig_Run E arg s) =
     (case PARSER_UpdateConfig E (filter (\<lambda>n. n \<in> set UPDATEABLE_FIELDS) (map fst arg)) of
        None \<Rightarrow> None
      | Some e \<Rightarrow> (if e = IOError \<or> e = OSError then None else Some e))"
  by (simp add: UpdateConfig_Run_def UpdateConfig_loop_eq Let_def split: option.splits)

lemma map_of_rev_distinct:
  "distinct (map fst xs) \<Longrightarrow> map_of (rev xs) = map_of xs"
  by (rule map_of_inject_set [THEN iffD2]) (simp_all add: rev_map [symmetric])


text \<open>
  C1. The updateable fields are the ten names of the list. For a request whose fields
  have distinct names, as \<^verbatim>\<open>ListFields()\<close> gives them, every field with an updateable name
  is stored in the flags with the value of the request, the flag of every name that is
  not updateable or not in the request keeps its value, and the flags reached are the
  same for every order of the fields: a field that is refused does not stop the fields
  after it.
\<close>

theorem UpdateConfig_applies_whitelist:
  assumes "distinct (map fst arg)"
  shows "set UPDATEABLE_FIELDS =
           {''compression'', ''foreman_check_frequency'', ''location'', ''max_post_size'',
            ''max_out_queue'', ''poll_min'', ''poll_max'', ''poll_slew'', ''rss_max'',
            ''verbose''}
       \<and> (\<forall>(name, v) \<in> set arg. name \<in> set UPDATEABLE_FIELDS \<longrightarrow>
             FLAGS (snd (UpdateConfig_Run E arg s)) name = Some v)
       \<and> (\<forall>name. name \<notin> set UPDATEABLE_FIELDS \<longrightarrow>
             FLAGS (snd (UpdateConfig_Run E arg s)) name = FLAGS s name)
       \<and> (\<forall>name. name \<notin> fst ` set arg \<longrightarrow>
             FLAGS (snd (UpdateConfig_Run E arg s)) name = FLAGS s name)
       \<and> (\<forall>arg'. distinct (map fst arg') \<and> set arg' = set arg \<longrightarrow>
             FLAGS (snd (UpdateConfig_Run E arg' s)) = FLAGS (snd (UpdateConfig_Run E arg s)))"
proof -
  have wl: "set UPDATEABLE_FIELDS =
           {''compression'', ''foreman_check_frequency'', ''location'', ''max_post_size'',
            ''max_out_queue'', ''poll_min'', ''poll_max'', ''poll_slew'', ''rss_max'',
            ''verbose''}"
    unfolding UPDATEABLE_FIELDS_def by (simp only: list.set) 
  have m: "map_of (rev arg) = map_of arg"
    by (rule map_of_rev_distinct [OF assms])
  have applied: "\<forall>(name, v) \<in> set arg. name \<in> set UPDATEABLE_FIELDS \<longrightarrow>
             FLAGS (snd (UpdateConfig_Run E arg s)) name = Some v"
    using assms by (auto simp: FLAGS_UpdateConfig_Run m)
  have rejected: "\<forall>name. name \<notin> set UPDATEABLE_FIELDS \<longrightarrow>
             FLAGS (snd (UpdateConfig_Run E arg s)) name = FLAGS s name"
    by (simp add: FLAGS_UpdateConfig_Run)
  have absent: "\<forall>name. name \<notin> fst ` set arg \<longrightarrow>
             FLAGS (snd (UpdateConfig_Run E arg s)) name = FLAGS s name"
  proof (intro allI impI)
    fix name
    assume "name \<notin> fst ` set arg"
    then have "map_of arg name = None" by (simp add: map_of_eq_None_iff)
    then show "FLAGS (snd (UpdateConfig_Run E arg s)) name = FLAGS s name"
      by (simp add: FLAGS_UpdateConfig_Run m)
  qed
  have order: "FLAGS (snd (UpdateConfig_Run E arg' s)) = FLAGS (snd (UpdateConfig_Run E arg s))"
    if "distinct (map fst arg')" "set arg' = set arg" for arg'
  proof -
    have "map_of arg' = map_of arg"
      using that assms by (simp add: map_of_inject_set)
    then have "map_of (rev arg') = map_of (rev arg)"
      by (simp only: m map_of_rev_distinct [OF that(1)])
    then show ?thesis
      by (simp only: FLAGS_UpdateConfig_Run)
  qed
  from order have order': "\<forall>arg'. distinct (map fst arg') \<and> set arg' = set arg \<longrightarrow>
      FLAGS (snd (UpdateConfig_Run E arg' s)) = FLAGS (snd (UpdateConfig_Run E arg s))"
    by (intro allI impI) (erule conjE)
  show ?thesis
    by (rule conjI [OF wl conjI [OF applied conjI [OF rejected conjI [OF absent order']]]])
qed

theorem UpdateConfig_applies_whitelist_witness:
  "distinct (map fst example_arg)
   \<and> FLAGS (snd (UpdateConfig_Run example_env example_arg example_state)) ''poll_min''
       = Some (IntValue 5)
   \<and> FLAGS (snd (UpdateConfig_Run example_env example_arg example_state)) ''arbitrary_field''
       = None"
proof -
  have d: "distinct (map fst example_arg)" by (simp add: example_arg_def)
  have p: "''poll_min'' \<in> set UPDATEABLE_FIELDS" by (simp add: UPDATEABLE_FIELDS_def)
  have a: "''arbitrary_field'' \<notin> set UPDATEABLE_FIELDS" by (simp add: UPDATEABLE_FIELDS_def)
  have m: "(''poll_min'', IntValue 5) \<in> set example_arg" by (simp add: example_arg_def)
  have f: "FLAGS example_state ''arbitrary_field'' = None" by (simp add: example_state_def)
  note T = UpdateConfig_applies_whitelist [OF d, of example_env example_state]
  have applied: "\<forall>(name, v) \<in> set example_arg. name \<in> set UPDATEABLE_FIELDS \<longrightarrow>
      FLAGS (snd (UpdateConfig_Run example_env example_arg example_state)) name = Some v"
    by (rule conjunct1 [OF conjunct2 [OF T]])
  have rejected: "\<forall>name. name \<notin> set UPDATEABLE_FIELDS \<longrightarrow>
      FLAGS (snd (UpdateConfig_Run example_env example_arg example_state)) name
        = FLAGS example_state name"
    by (rule conjunct1 [OF conjunct2 [OF conjunct2 [OF T]]])
  from bspec [OF applied m] p
  have 1: "FLAGS (snd (UpdateConfig_Run example_env example_arg example_state)) ''poll_min''
       = Some (IntValue 5)" by simp
  from spec [OF rejected, of "''arbitrary_field''"] a f
  have 2: "FLAGS (snd (UpdateConfig_Run example_env example_arg example_state))
       ''arbitrary_field'' = None" by simp
  show ?thesis by (rule conjI [OF d conjI [OF 1 2]])
qed

lemma FLAGS_UpdateConfig_Run_distinct:
  assumes "distinct (map fst arg)" and "(name, v) \<in> set arg"
    and "name \<in> set UPDATEABLE_FIELDS"
  shows "FLAGS (snd (UpdateConfig_Run E arg s)) name = Some v"
proof -
  from assms(1,2) have "map_of arg name = Some v" by (rule map_of_is_SomeI)
  with assms(1,3) show ?thesis
    by (simp add: FLAGS_UpdateConfig_Run map_of_rev_distinct)
qed

text \<open>
  C3. After the loop, \<^verbatim>\<open>conf.PARSER.UpdateConfig\<close> is called once, as the last effect, with
  the updateable names of the request in order; before it there is at most the warning
  about refused fields. When that call raises \<open>IOError\<close> or \<open>OSError\<close>, no exception
  leaves \<^verbatim>\<open>Run\<close>, no reply is sent, and the flags are the updated ones: every updateable
  name of the request holds the value that the request gives it (the last one, should a
  name occur twice), every other flag has the value it had before, and these are the
  flags that a successful write leaves.
\<close>

theorem UpdateConfig_persistence_swallowed:
  "(\<exists>log. trace (snd (UpdateConfig_Run E arg s)) =
        trace s @ log @ [ParserUpdateConfig (filter (\<lambda>n. n \<in> set UPDATEABLE_FIELDS) (map fst arg))]
      \<and> (log = [] \<or> (\<exists>w. log = [LoggingWarning w])))
   \<and> (PARSER_UpdateConfig E (filter (\<lambda>n. n \<in> set UPDATEABLE_FIELDS) (map fst arg)) = Some IOError
       \<or> PARSER_UpdateConfig E (filter (\<lambda>n. n \<in> set UPDATEABLE_FIELDS) (map fst arg)) = Some OSError
      \<longrightarrow> fst (UpdateConfig_Run E arg s) = None
        \<and> replies (trace (snd (UpdateConfig_Run E arg s))) = replies (trace s)
        \<and> FLAGS (snd (UpdateConfig_Run E arg s))
            = FLAGS (snd (UpdateConfig_Run (E\<lparr>PARSER_UpdateConfig := \<lambda>keys. None\<rparr>) arg s))
        \<and> FLAGS (snd (UpdateConfig_Run E arg s))
            = (\<lambda>name. if name \<in> set UPDATEABLE_FIELDS
                 then (case map_of (rev arg) name of Some v \<Rightarrow> Some v | None \<Rightarrow> FLAGS s name)
                 else FLAGS s name)
        \<and> (distinct (map fst arg) \<longrightarrow>
             (\<forall>(name, v) \<in> set arg. name \<in> set UPDATEABLE_FIELDS \<longrightarrow>
                FLAGS (snd (UpdateConfig_Run E arg s)) name = Some v)))"
proof (intro conjI impI)
  show "\<exists>log. trace (snd (UpdateConfig_Run E arg s)) =
        trace s @ log @ [ParserUpdateConfig (filter (\<lambda>n. n \<in> set UPDATEABLE_FIELDS) (map fst arg))]
      \<and> (log = [] \<or> (\<exists>w. log = [LoggingWarning w]))"
    by (simp add: trace_UpdateConfig_Run)
next
  assume "PARSER_UpdateConfig E (filter (\<lambda>n. n \<in> set UPDATEABLE_FIELDS) (map fst arg)) = Some IOError
       \<or> PARSER_UpdateConfig E (filter (\<lambda>n. n \<in> set UPDATEABLE_FIELDS) (map fst arg)) = Some OSError"
  then show "fst (UpdateConfig_Run E arg s) = None"
    by (auto simp: raised_UpdateConfig_Run)
next
  show "replies (trace (snd (UpdateConfig_Run E arg s))) = replies (trace s)"
    by (simp add: trace_UpdateConfig_Run replies_append)
next
  show "FLAGS (snd (UpdateConfig_Run E arg s))
            = FLAGS (snd (UpdateConfig_Run (E\<lparr>PARSER_UpdateConfig := \<lambda>keys. None\<rparr>) arg s))"
    by (simp only: FLAGS_UpdateConfig_Run)
next
  show "FLAGS (snd (UpdateConfig_Run E arg s))
            = (\<lambda>name. if name \<in> set UPDATEABLE_FIELDS
                 then (case map_of (rev arg) name of Some v \<Rightarrow> Some v | None \<Rightarrow> FLAGS s name)
                 else FLAGS s name)"
    by (rule FLAGS_UpdateConfig_Run)
next
  assume d: "distinct (map fst arg)"
  show "\<forall>(name, v) \<in> set arg. name \<in> set UPDATEABLE_FIELDS \<longrightarrow>
                FLAGS (snd (UpdateConfig_Run E arg s)) name = Some v"
  proof (intro ballI)
    fix x
    assume x: "x \<in> set arg"
    obtain name v where nv: "x = (name, v)" by (cases x)
    from x nv have "name \<in> set UPDATEABLE_FIELDS \<longrightarrow>
        FLAGS (snd (UpdateConfig_Run E arg s)) name = Some v"
      by (intro impI) (rule FLAGS_UpdateConfig_Run_distinct [OF d], simp_all)
    with nv show "case x of (name, v) \<Rightarrow> name \<in> set UPDATEABLE_FIELDS \<longrightarrow>
        FLAGS (snd (UpdateConfig_Run E arg s)) name = Some v"
      by simp
  qed
qed

theorem UpdateConfig_persistence_swallowed_witness:
  "PARSER_UpdateConfig example_env
       (filter (\<lambda>n. n \<in> set UPDATEABLE_FIELDS) (map fst example_arg)) = Some IOError
   \<and> distinct (map fst example_arg)
   \<and> fst (UpdateConfig_Run example_env example_arg example_state) = None
   \<and> replies (trace (snd (UpdateConfig_Run example_env example_arg example_state))) = []
   \<and> FLAGS example_state ''poll_min'' = Some (IntValue 60)
   \<and> FLAGS (snd (UpdateConfig_Run example_env example_arg example_state)) ''poll_min''
       = Some (IntValue 5)"
proof -
  have h: "PARSER_UpdateConfig example_env
       (filter (\<lambda>n. n \<in> set UPDATEABLE_FIELDS) (map fst example_arg)) = Some IOError"
    by (simp add: example_env_def)
  have d: "distinct (map fst example_arg)" by (simp add: example_arg_def)
  have p: "''poll_min'' \<in> set UPDATEABLE_FIELDS" by (simp add: UPDATEABLE_FIELDS_def)
  have m: "(''poll_min'', IntValue 5) \<in> set example_arg" by (simp add: example_arg_def)
  have t: "replies (trace example_state) = []" by (simp add: example_state_def)
  have old: "FLAGS example_state ''poll_min'' = Some (IntValue 60)"
    by (simp add: example_state_def)
  note T = UpdateConfig_persistence_swallowed [of example_env example_arg example_state]
  note I = mp [OF conjunct2 [OF T] disjI1 [OF h]]
  have 1: "fst (UpdateConfig_Run example_env example_arg example_state) = None"
    by (rule conjunct1 [OF I])
  from conjunct1 [OF conjunct2 [OF I]] t
  have 2: "replies (trace (snd (UpdateConfig_Run example_env example_arg example_state))) = []"
    by simp
  note A = mp [OF conjunct2 [OF conjunct2 [OF conjunct2 [OF conjunct2 [OF I]]]] d]
  from bspec [OF A m] p
  have 3: "FLAGS (snd (UpdateConfig_Run example_env example_arg example_state)) ''poll_min''
       = Some (IntValue 5)" by simp
  show ?thesis
    by (rule conjI [OF h conjI [OF d conjI [OF 1 conjI [OF 2 conjI [OF old 3]]]]])
qed







subsection \<open>GetClientStats and GetClientStatsAuto\<close>

text \<open>
  C7. In every environment and state both actions send one reply with the same payload,
  the response that the shared \<^verbatim>\<open>Run\<close> builds, of the same message type and without a
  time to live. \<^verbatim>\<open>GetClientStats\<close> answers the request (its session, its request number,
  the next response number) with normal priority and expedited transport;
  \<^verbatim>\<open>GetClientStatsAuto\<close> addresses the session \<^verbatim>\<open>W:Stats\<close> with request and response
  number 0, with \<open>LOW_PRIORITY\<close>, which is lower whenever low is below normal, and
  without expedited transport. Flags and clock are left alike.
\<close>

theorem GetClientStatsAuto_same_payload:
  "\<exists>m a. trace (GetClientStats_Run E s) = trace s @ [WorkerSendReply m]
     \<and> trace (GetClientStatsAuto_Run E s) = trace s @ [WorkerSendReply a]
     \<and> payload a = payload m \<and> payload m = ClientStats_pb (GetClientStats_response E)
     \<and> message_type a = message_type m \<and> ttl a = ttl m
     \<and> session_id m = message_session_id s \<and> request_id m = message_request_id s
     \<and> response_id m = self_response_id s
     \<and> session_id a = ''W:Stats'' \<and> request_id a = 0 \<and> response_id a = 0
     \<and> priority m = MEDIUM_PRIORITY E \<and> priority a = LOW_PRIORITY E
     \<and> (LOW_PRIORITY E < MEDIUM_PRIORITY E \<longrightarrow> priority a < priority m)
     \<and> require_fastpoll m \<and> \<not> require_fastpoll a
     \<and> FLAGS (GetClientStats_Run E s) = FLAGS (GetClientStatsAuto_Run E s)
     \<and> clock (GetClientStats_Run E s) = clock (GetClientStatsAuto_Run E s)"
  by (simp add: GetClientStats_Run_def GetClientStatsAuto_Run_def GetClientStats_Run_with_def
      GetClientStats_Send_def GetClientStatsAuto_Send_def trace_SendReply
      trace_grr_worker_SendReply SendReply_def grr_worker_SendReply_def emit_def Let_def)

theorem GetClientStatsAuto_same_payload_witness:
  "LOW_PRIORITY example_env < MEDIUM_PRIORITY example_env
   \<and> (\<exists>m a. trace (GetClientStats_Run example_env example_state)
               = trace example_state @ [WorkerSendReply m]
     \<and> trace (GetClientStatsAuto_Run example_env example_state)
               = trace example_state @ [WorkerSendReply a]
     \<and> payload a = payload m \<and> priority a < priority m)"
proof -
  have h: "LOW_PRIORITY example_env < MEDIUM_PRIORITY example_env"
    by (simp add: example_env_def)
  from GetClientStatsAuto_same_payload [of example_env example_state] h
  show ?thesis by blast
qed

subsection \<open>Priorities of replies\<close>

text \<open>
  C8, as stated, fails: with priorities numbered in increasing order the reply of
  \<^verbatim>\<open>GetClientStatsAuto\<close> has \<open>LOW_PRIORITY\<close>, which is none of normal, high and
  high plus one.
\<close>

theorem reply_priority_counterexample:
  "map priority (replies (trace (GetClientStatsAuto_Run example_env example_state)))
     = [LOW_PRIORITY example_env]
   \<and> LOW_PRIORITY example_env \<notin> {MEDIUM_PRIORITY example_env, HIGH_PRIORITY example_env,
         HIGH_PRIORITY example_env + 1}"
  by (simp add: GetClientStatsAuto_Run_def GetClientStats_Run_with_def
      GetClientStatsAuto_Send_def trace_grr_worker_SendReply replies_append
      example_env_def example_state_def)

text \<open>
  C8, amended. Every reply that an action of the module sends has a priority among
  \<open>LOW_PRIORITY\<close>, \<open>MEDIUM_PRIORITY\<close> (normal), \<open>HIGH_PRIORITY\<close> and
  \<open>HIGH_PRIORITY + 1\<close>.
\<close>

theorem reply_priorities:
  assumes "run E a s = Some (r, s')"
  shows "\<exists>ms. replies (trace s') = replies (trace s) @ ms
       \<and> (\<forall>m\<in>set ms. priority m \<in> {LOW_PRIORITY E, MEDIUM_PRIORITY E, HIGH_PRIORITY E,
             HIGH_PRIORITY E + 1})"
proof (cases a)
  case (Echo args)
  with assms show ?thesis
    by (auto simp: Echo_Run_def trace_SendReply replies_append)
next
  case GetHostname
  with assms show ?thesis
    by (auto simp: GetHostname_Run_def trace_SendReply replies_append)
next
  case GetPlatformInfo
  with assms show ?thesis
    by (auto simp: GetPlatformInfo_Run_def Let_def trace_SendReply replies_append)
next
  case Kill
  with assms show ?thesis
    by (auto simp: Kill_Run_def Let_def trace_emit trace_SendReply replies_append)
next
  case (Hang arg)
  with assms show ?thesis
    by (auto simp: Hang_Run_def trace_emit replies_append)
next
  case (BusyHang arg)
  with assms show ?thesis
    by (auto simp: BusyHang_Run_def Let_def split: list.splits option.splits)
next
  case (Bloat arg)
  with assms show ?thesis
    by (auto simp: trace_Bloat_Run replies_append replies_ListAppend)
next
  case GetConfig
  with assms show ?thesis
    by (auto simp: GetConfig_Run_def trace_SendReply replies_append)
next
  case (UpdateConfig arg)
  with assms have "s' = snd (UpdateConfig_Run E arg s)" by auto
  then show ?thesis
    by (simp add: trace_UpdateConfig_Run replies_append)
next
  case GetClientInfo
  with assms show ?thesis
    by (auto simp: GetClientInfo_Run_def trace_SendReply replies_append)
next
  case GetClientStats
  with assms show ?thesis
    by (auto simp: GetClientStats_Run_def GetClientStats_Run_with_def GetClientStats_Send_def
        trace_SendReply replies_append)
next
  case GetClientStatsAuto
  with assms show ?thesis
    by (auto simp: GetClientStatsAuto_Run_def GetClientStats_Run_with_def
        GetClientStatsAuto_Send_def trace_grr_worker_SendReply replies_append)
next
  case (SendStartupInfo t)
  with assms show ?thesis
    by (auto simp: SendStartupInfo_Run_def Let_def trace_grr_worker_SendReply replies_append)
qed

theorem reply_priorities_witness:
  "run example_env Kill example_state = Some (None, Kill_Run example_env example_state)
   \<and> (\<exists>ms. replies (trace (Kill_Run example_env example_state))
            = replies (trace example_state) @ ms
       \<and> (\<forall>m\<in>set ms. priority m \<in> {LOW_PRIORITY example_env, MEDIUM_PRIORITY example_env,
             HIGH_PRIORITY example_env, HIGH_PRIORITY example_env + 1}))"
proof -
  have h: "run example_env Kill example_state = Some (None, Kill_Run example_env example_state)"
    by simp
  from reply_priorities [OF h] h show ?thesis by (rule_tac conjI)
qed

end
